theory Spec2Isabelle
  imports Main
begin

section \<open>Python string primitives\<close>

text \<open>
  Python strings are modelled as \<^typ>\<open>string\<close>; one \<^typ>\<open>char\<close> stands for one code point
  below 256. On that range \<open>str.isspace\<close>, \<open>str.strip\<close>, \<open>str.split\<close> without separator
  and the regular expression class \<open>\s\<close> agree on what whitespace is: the code points
  9 to 13, 28 to 32, 133 and 160.
\<close>

definition isspace :: "char \<Rightarrow> bool" where
  "isspace c =
     (let n = (of_char c :: nat)
      in (9 \<le> n \<and> n \<le> 13) \<or> (28 \<le> n \<and> n \<le> 32) \<or> n = 133 \<or> n = 160)"

definition lstrip :: "string \<Rightarrow> string" where
  "lstrip s = dropWhile isspace s"

definition rstrip :: "string \<Rightarrow> string" where
  "rstrip s = rev (dropWhile isspace (rev s))"

definition strip :: "string \<Rightarrow> string" where
  "strip s = rstrip (lstrip s)"

definition startswith :: "string \<Rightarrow> string \<Rightarrow> bool" where
  \<comment> \<open>\<open>s.startswith(p)\<close>\<close>
  "startswith s p = (take (length p) s = p)"

definition endswith :: "string \<Rightarrow> string \<Rightarrow> bool" where
  \<comment> \<open>\<open>s.endswith(p)\<close>\<close>
  "endswith s p = (length p \<le> length s \<and> drop (length s - length p) s = p)"

fun contains :: "string \<Rightarrow> string \<Rightarrow> bool" where
  \<comment> \<open>\<open>sub in s\<close>\<close>
  "contains [] sub = (sub = [])"
| "contains (c # cs) sub = (startswith (c # cs) sub \<or> contains cs sub)"

fun split_sep :: "char \<Rightarrow> string \<Rightarrow> string list" where
  \<comment> \<open>\<open>s.split(sep)\<close> for a one-character separator: never the empty list\<close>
  "split_sep sep [] = [[]]"
| "split_sep sep (c # cs) =
     (if c = sep then [] # split_sep sep cs
      else (case split_sep sep cs of
              [] \<Rightarrow> [[c]]
            | w # ws \<Rightarrow> (c # w) # ws))"

definition split_maxsplit1 :: "string \<Rightarrow> string list" where
  \<comment> \<open>\<open>s.split(maxsplit=1)\<close>: leading whitespace skipped, the first word, then the
      remainder without its leading whitespace when there is one\<close>
  "split_maxsplit1 s =
     (let s1 = dropWhile isspace s
      in if s1 = [] then []
         else let w = takeWhile (\<lambda>c. \<not> isspace c) s1;
                  r = dropWhile isspace (dropWhile (\<lambda>c. \<not> isspace c) s1)
              in if r = [] then [w] else [w, r])"

fun digits :: "nat \<Rightarrow> string" where
  "digits n =
     (if n < 10 then [char_of (48 + n)]
      else digits (n div 10) @ [char_of (48 + n mod 10)])"

definition str_int :: "int \<Rightarrow> string" where
  \<comment> \<open>the decimal text an f-string gives an \<open>int\<close>\<close>
  "str_int i = (if i < 0 then CHR ''-'' # digits (nat (- i)) else digits (nat i))"

section \<open>Session state\<close>

record turn =
  role :: string
  content :: string

record agent =
  system_message :: string
  conversation_history :: "turn list"
  whitelisted_commands :: "string \<rightharpoonup> bool"
  current_working_directory :: string

definition initial_whitelist :: "string \<rightharpoonup> bool" where
  "initial_whitelist =
     map_of [(''ls'', True), (''pwd'', True), (''cat'', True), (''echo'', True),
             (''find'', True), (''grep'', True), (''df'', True), (''du'', True),
             (''ps'', True), (''whoami'', True), (''mkdir'', True), (''rmdir'', True),
             (''touch'', True), (''rm'', True)]"

definition system_message_text :: string where
  "system_message_text =
     ''You are an intelligent OS assistant integrated into a custom operating system. '' @
     ''Your core purpose is to help the user interact with and manage their system, '' @
     ''as well as answer general questions concisely. '' @
     ''Always be aware of the 'Current Working Directory'. '' @
     ''When the user asks you to perform a system action (like listing files, creating folders, running programs, etc.), '' @
     ''you must respond in one of the following formats:\<newline>\<newline>'' @
     ''1.  **For Shell Commands:** If a shell command is needed, output ONLY the command prefixed with `[COMMAND]:` on a new line, like this: `[COMMAND]:ls -l`\<newline>'' @
     ''    * Ensure the command is part of the whitelisted commands. '' @
     ''    * Handle `cd` commands internally by updating your current directory. '' @
     ''    * Do NOT include any other text (like 'Okay, here's the command:') when giving a command.\<newline>'' @
     ''2.  **For Python Code:** If the request requires Python code, output the code in a standard markdown code block (```python'' @
     [CHR 0x5C] @ ''n...'' @ [CHR 0x5C] @ ''n```).\<newline>'' @
     ''3.  **For General Answers:** For conversational responses or information that doesn't involve system actions, respond directly and concisely.\<newline>\<newline>'' @
     ''Prioritize system interactions when clearly requested. Be direct and avoid unnecessary conversational filler.''"

definition model_name :: string where
  "model_name = ''llama3.2:1b-instruct-q2_K''"

definition init_agent :: "string \<Rightarrow> agent" where
  \<comment> \<open>\<open>Llama3Agent.__init__\<close>; \<open>home\<close> is what \<open>os.path.expanduser("~")\<close> gives\<close>
  "init_agent home =
     \<lparr> system_message = system_message_text,
       conversation_history = [],
       whitelisted_commands = initial_whitelist,
       current_working_directory = home \<rparr>"

section \<open>The command gate and process execution\<close>

text \<open>
  \<open>subprocess.run(command, shell=True, capture_output=True, text=True, check=True, cwd=...)\<close>
  is the process-execution collaborator. It is a parameter \<open>run\<close> of the model, from the
  command text and the execution directory to what the call does: it completes with an
  exit code, standard output and standard error (a non-zero exit code is raised as
  \<open>CalledProcessError\<close> because of \<open>check=True\<close>), it raises \<open>FileNotFoundError\<close>, or it
  raises any other exception, whose text is carried along. Every invocation is logged
  as the pair of command text and execution directory.
\<close>

datatype proc_outcome =
    Completed int string string
  | FileNotFoundError
  | OtherException string

type_synonym invocation = "string \<times> string"

definition security_alert :: string where
  "security_alert =
     ''Security Alert: Command contains '' @ [CHR 0x27] @ ''..'' @ [CHR 0x27] @
     '' and is not a permitted navigation/read command. Execution blocked.''"

definition not_whitelisted :: "string \<Rightarrow> string" where
  "not_whitelisted base_command =
     ''Error: Command '' @ [CHR 0x27] @ base_command @ [CHR 0x27] @
     '' is not explicitly whitelisted for execution.''"

definition code_block :: "string \<Rightarrow> string" where
  \<comment> \<open>the text between the bash fences of a report\<close>
  "code_block body = ''```bash\<newline>'' @ body @ ''\<newline>```''"

definition report :: "string \<Rightarrow> proc_outcome \<Rightarrow> string" where
  \<comment> \<open>lines 63 to 78: the \<open>try\<close> body after the process has run and the three handlers\<close>
  "report base_command r =
     (case r of
        Completed returncode stdout stderr \<Rightarrow>
          if returncode = 0 then
            (let output = strip stdout; error_output = strip stderr
             in if output \<noteq> [] then ''Command Output:\<newline>'' @ code_block output
                else if error_output \<noteq> [] then ''Command Error:\<newline>'' @ code_block error_output
                else ''Command executed successfully with no output.'')
          else ''Command failed with exit code '' @ str_int returncode @
               '':\<newline>Error Output:\<newline>'' @ code_block (strip stderr)
      | FileNotFoundError \<Rightarrow>
          ''Error: Command '' @ [CHR 0x27] @ base_command @ [CHR 0x27] @
          '' not found. Is it installed?''
      | OtherException e \<Rightarrow>
          ''An unexpected error occurred during command execution: '' @ e)"

definition execute_shell_command ::
  "(string \<Rightarrow> string \<Rightarrow> proc_outcome) \<Rightarrow> agent \<Rightarrow> string \<Rightarrow> string \<times> invocation list" where
  \<comment> \<open>\<open>Llama3Agent._execute_shell_command\<close>: the returned text and the processes spawned\<close>
  "execute_shell_command run self command_string =
     (case split_maxsplit1 (strip command_string) of
        [] \<Rightarrow> (''Error: No command provided for execution.'', [])
      | base_command # _ \<Rightarrow>
          if ''..'' \<in> set (split_sep CHR ''/'' command_string)
             \<and> base_command \<notin> set [''cd'', ''ls'', ''cat'', ''find'', ''grep'']
          then (security_alert, [])
          else if (case whitelisted_commands self base_command of
                     None \<Rightarrow> True
                   | Some enabled \<Rightarrow> \<not> enabled)
          then (not_whitelisted base_command, [])
          else (report base_command (run command_string (current_working_directory self)),
                [(command_string, current_working_directory self)]))"

section \<open>The model gateway\<close>

text \<open>
  The HTTP transport and \<open>json.loads\<close> are parameters. A streamed request either fails to
  connect, comes back with a non-success status (which \<open>raise_for_status\<close> raises), or
  delivers lines, possibly followed by a fault that is raised once they have been read
  (any other failure is the case of no lines and a fault).

  A parsed line is any JSON value. A number is kept as whether it is non-zero, which is all
  the code can see of it: its truth value. An object keeps its members in the order of the
  text, and a later member overrides an earlier one with the same key, as in the \<open>dict\<close> that
  \<open>json.loads\<close> builds.
\<close>

datatype json =
    JNull
  | JBool bool
  | JNumber bool
  | JString string
  | JArray "json list"
  | JObject "(string \<times> json) list"

datatype transport =
    ConnectError
  | HTTPStatusError nat string
  | Lines "string list" "string option"

record ollama_client =
  stream_post :: "string \<Rightarrow> turn list \<Rightarrow> transport"
  json_loads :: "string \<Rightarrow> json option"

datatype error =
    ValueError string
  | ResponseNotRead
  | TypeError
  | AttributeError
  | KeyError

fun truthy :: "json \<Rightarrow> bool" where
  \<comment> \<open>the truth value Python gives a parsed value in \<open>if x:\<close>\<close>
  "truthy JNull = False"
| "truthy (JBool b) = b"
| "truthy (JNumber nonzero) = nonzero"
| "truthy (JString s) = (s \<noteq> [])"
| "truthy (JArray xs) = (xs \<noteq> [])"
| "truthy (JObject members) = (members \<noteq> [])"

fun py_in :: "string \<Rightarrow> json \<Rightarrow> error + bool" where
  \<comment> \<open>\<open>key in x\<close> for a text \<open>key\<close>: a key of an object, an element of an array, a part of
      a text; anything else is not iterable\<close>
  "py_in key (JObject members) = Inr (key \<in> set (map fst members))"
| "py_in key (JArray xs) = Inr (JString key \<in> set xs)"
| "py_in key (JString s) = Inr (contains s key)"
| "py_in key JNull = Inl TypeError"
| "py_in key (JBool b) = Inl TypeError"
| "py_in key (JNumber nonzero) = Inl TypeError"

fun py_getitem :: "json \<Rightarrow> string \<Rightarrow> error + json" where
  \<comment> \<open>\<open>x[key]\<close> for a text \<open>key\<close>: only an object can be indexed by a text\<close>
  "py_getitem (JObject members) key =
     (case map_of (rev members) key of
        Some v \<Rightarrow> Inr v
      | None \<Rightarrow> Inl KeyError)"
| "py_getitem JNull key = Inl TypeError"
| "py_getitem (JBool b) key = Inl TypeError"
| "py_getitem (JNumber nonzero) key = Inl TypeError"
| "py_getitem (JString s) key = Inl TypeError"
| "py_getitem (JArray xs) key = Inl TypeError"

fun py_get :: "json \<Rightarrow> string \<Rightarrow> error + json" where
  \<comment> \<open>\<open>x.get(key)\<close>: only an object has the method\<close>
  "py_get (JObject members) key =
     Inr (case map_of (rev members) key of
            Some v \<Rightarrow> v
          | None \<Rightarrow> JNull)"
| "py_get JNull key = Inl AttributeError"
| "py_get (JBool b) key = Inl AttributeError"
| "py_get (JNumber nonzero) key = Inl AttributeError"
| "py_get (JString s) key = Inl AttributeError"
| "py_get (JArray xs) key = Inl AttributeError"

definition message_has_content :: "json \<Rightarrow> error + bool" where
  \<comment> \<open>the test \<open>'message' in response and 'content' in response['message']\<close>\<close>
  "message_has_content response =
     (case py_in ''message'' response of
        Inl e \<Rightarrow> Inl e
      | Inr has_message \<Rightarrow>
          if has_message then
            (case py_getitem response ''message'' of
               Inl e \<Rightarrow> Inl e
             | Inr message \<Rightarrow> py_in ''content'' message)
          else Inr False)"

definition extract_content :: "json \<Rightarrow> error + json" where
  \<comment> \<open>\<open>OllamaClient._extract_content\<close>; \<open>JNull\<close> is Python's \<open>None\<close>\<close>
  "extract_content response =
     (case message_has_content response of
        Inl e \<Rightarrow> Inl e
      | Inr has_content \<Rightarrow>
          if has_content then
            (case py_getitem response ''message'' of
               Inl e \<Rightarrow> Inl e
             | Inr message \<Rightarrow> py_getitem message ''content'')
          else
            (case py_in ''response'' response of
               Inl e \<Rightarrow> Inl e
             | Inr has_response \<Rightarrow>
                 if has_response then py_getitem response ''response'' else Inr JNull))"

fun iter_lines :: "(string \<Rightarrow> json option) \<Rightarrow> string list \<Rightarrow> json list" where
  \<comment> \<open>the \<open>for line in response.iter_lines()\<close> loop: the values it yields, in order. A line
      that is not JSON is skipped (\<open>JSONDecodeError\<close>: \<open>continue\<close>). Any other exception
      raised while a line is looked at leaves the loop and is caught by the handlers of
      the outer \<open>try\<close>, which end the generator: what was yielded stays, the rest is lost.\<close>
  "iter_lines loads [] = []"
| "iter_lines loads (line # rest) =
     (if line = [] then iter_lines loads rest
      else (case loads line of
              None \<Rightarrow> iter_lines loads rest
            | Some json_data \<Rightarrow>
                (case extract_content json_data of
                   Inl e \<Rightarrow> []
                 | Inr chunk \<Rightarrow>
                     (if chunk \<noteq> JNull then [chunk] else []) @
                     (case py_get json_data ''done'' of
                        Inl e \<Rightarrow> []
                      | Inr done_value \<Rightarrow>
                          if truthy done_value then [] else iter_lines loads rest))))"

text \<open>
  \<open>generate_text\<close> has \<open>yield\<close> in its body, so it is a generator function: a call runs
  none of the body and returns a generator object, whatever \<open>stream\<close> is. The body runs when
  the generator is iterated; a \<open>return\<close> in it, with or without a value, ends the iteration,
  and an exception that leaves it is raised in the consumer. The value of a call is thus
  never \<open>None\<close>: it is a generator, given here by what draining it does, raise before the
  first value or yield a finite list of values. Only the \<open>messages\<close> form of the call is
  modelled (\<open>prompt\<close> and \<open>system_message\<close> are left at \<open>None\<close>, as the one caller does).

  The handler of \<open>ConnectError\<close> prints and returns, which ends the generator. The handler
  of \<open>HTTPStatusError\<close> builds its message from \<open>e.response.text\<close>; the response of a
  streamed request has not been read at that point, so this raises
  \<open>httpx.ResponseNotRead\<close> inside the handler, and the exception leaves the generator.
\<close>

datatype response_generator = PyNone | Generator "error + json list"

definition generate_text ::
  "ollama_client \<Rightarrow> string \<Rightarrow> turn list \<Rightarrow> bool \<Rightarrow> response_generator" where
  "generate_text client model messages stream =
     Generator
       (if messages \<noteq> [] then
          (if stream then
             (case stream_post client ''/chat'' messages of
                Lines ls fault \<Rightarrow> Inr (iter_lines (json_loads client) ls)
              | ConnectError \<Rightarrow> Inr []
              | HTTPStatusError status_code body \<Rightarrow> Inl ResponseNotRead)
           else Inr [])
        else Inl (ValueError
          ''Either 'prompt' or 'messages' must be provided to generate_text.''))"

section \<open>The response classifier\<close>

datatype classified_response = Command string | Code string | Text string

definition re_match_command :: "string \<Rightarrow> string option" where
  \<comment> \<open>\<open>re.match(r'\[COMMAND\]:\s*(.*)', s, re.DOTALL)\<close>: group 1 when the text matches\<close>
  "re_match_command s =
     (if startswith s ''[COMMAND]:'' then Some (dropWhile isspace (drop 10 s)) else None)"

definition classify :: "string \<Rightarrow> classified_response" where
  \<comment> \<open>lines 107 to 142 of \<open>process_query\<close>: which of the three branches is taken, and on what\<close>
  "classify full_response =
     (let final_response = strip full_response
      in case re_match_command final_response of
           Some group1 \<Rightarrow> Command (strip group1)
         | None \<Rightarrow>
             if startswith final_response ''```python'' then Code final_response
             else Text final_response)"

section \<open>Paths\<close>

text \<open>
  \<open>os.path.join\<close>, \<open>os.path.normpath\<close> and \<open>os.path.abspath\<close> of the standard library, for
  POSIX paths. The host is a parameter: the directory of the running process and the two
  file system tests.
\<close>

record host =
  getcwd :: string
  path_exists :: "string \<Rightarrow> bool"
  path_isdir :: "string \<Rightarrow> bool"

definition path_join :: "string \<Rightarrow> string \<Rightarrow> string" where
  "path_join a b =
     (if startswith b ''/'' then b
      else if a = [] \<or> endswith a ''/'' then a @ b
      else a @ ''/'' @ b)"

fun sep_join :: "string \<Rightarrow> string list \<Rightarrow> string" where
  \<comment> \<open>\<open>sep.join(xs)\<close>\<close>
  "sep_join sep [] = []"
| "sep_join sep [x] = x"
| "sep_join sep (x # y # ys) = x @ sep @ sep_join sep (y # ys)"

fun normpath_comps :: "bool \<Rightarrow> string list \<Rightarrow> string list \<Rightarrow> string list" where
  \<comment> \<open>the \<open>for comp in comps\<close> loop of \<open>normpath\<close>, with \<open>new_comps\<close> as accumulator\<close>
  "normpath_comps initial_slashes new_comps [] = new_comps"
| "normpath_comps initial_slashes new_comps (component # comps) =
     (if component = [] \<or> component = ''.'' then normpath_comps initial_slashes new_comps comps
      else if component \<noteq> ''..'' \<or> (\<not> initial_slashes \<and> new_comps = [])
              \<or> (new_comps \<noteq> [] \<and> last new_comps = ''..'')
      then normpath_comps initial_slashes (new_comps @ [component]) comps
      else if new_comps \<noteq> [] then normpath_comps initial_slashes (butlast new_comps) comps
      else normpath_comps initial_slashes new_comps comps)"

definition normpath :: "string \<Rightarrow> string" where
  "normpath path =
     (if path = [] then ''.''
      else
        let initial_slashes =
              (if startswith path ''/'' then
                 (if startswith path ''//'' \<and> \<not> startswith path ''///'' then 2 else 1)
               else (0::nat));
            comps = normpath_comps (initial_slashes \<noteq> 0) [] (split_sep CHR ''/'' path);
            joined = replicate initial_slashes CHR ''/'' @ sep_join ''/'' comps
        in if joined = [] then ''.'' else joined)"

definition abspath :: "host \<Rightarrow> string \<Rightarrow> string" where
  "abspath os path =
     normpath (if startswith path ''/'' then path else path_join (getcwd os) path)"

section \<open>The responder\<close>

record turn_result =
  returned :: "error + string"
  agent_after :: agent
  spawned :: "invocation list"

definition apology :: string where
  "apology =
     ''I'm sorry, I'm having trouble connecting to the model right now. Please try again later.''"

definition cd_success :: "string \<Rightarrow> string" where
  "cd_success dir = ''Changed current working directory to: `'' @ dir @ ''`''"

definition cd_failure :: "string \<Rightarrow> string" where
  "cd_failure new_path =
     ''Error: Cannot change directory to `'' @ new_path @
     ''`. Path does not exist or is not a directory.''"

definition append_turn :: "string \<Rightarrow> string \<Rightarrow> agent \<Rightarrow> agent" where
  \<comment> \<open>\<open>self.conversation_history.append({"role": r, "content": c})\<close>\<close>
  "append_turn r c self =
     self\<lparr>conversation_history := conversation_history self @ [\<lparr>role = r, content = c\<rparr>]\<rparr>"

definition change_directory :: "host \<Rightarrow> agent \<Rightarrow> string \<Rightarrow> agent \<times> string" where
  \<comment> \<open>lines 118 to 124 of \<open>process_query\<close>: the agent afterwards and \<open>response_msg\<close>\<close>
  "change_directory os self new_path =
     (let absolute_new_path = abspath os (path_join (current_working_directory self) new_path)
      in if path_exists os absolute_new_path \<and> path_isdir os absolute_new_path
         then (let self' = self\<lparr>current_working_directory := absolute_new_path\<rparr>
               in (self', cd_success (current_working_directory self')))
         else (self, cd_failure new_path))"

definition handle_response ::
  "host \<Rightarrow> (string \<Rightarrow> string \<Rightarrow> proc_outcome) \<Rightarrow> agent \<Rightarrow> string \<Rightarrow> turn_result" where
  \<comment> \<open>lines 107 to 142 of \<open>process_query\<close>: the turn from the collected model text on\<close>
  "handle_response os run self full_response =
     (case classify full_response of
        Command command_string \<Rightarrow>
          if startswith command_string ''cd '' then
            (let new_path = strip (drop 3 command_string);
                 (self', response_msg) = change_directory os self new_path
             in \<lparr>returned = Inr response_msg,
                 agent_after = append_turn ''assistant'' response_msg self',
                 spawned = []\<rparr>)
          else
            (let (execution_result, calls) = execute_shell_command run self command_string
             in \<lparr>returned = Inr execution_result,
                 agent_after = append_turn ''assistant'' execution_result self,
                 spawned = calls\<rparr>)
      | Code final_response \<Rightarrow>
          \<lparr>returned = Inr final_response,
           agent_after = append_turn ''assistant'' final_response self,
           spawned = []\<rparr>
      | Text final_response \<Rightarrow>
          \<lparr>returned = Inr final_response,
           agent_after = append_turn ''assistant'' final_response self,
           spawned = []\<rparr>)"

fun collect_chunks :: "string \<Rightarrow> json list \<Rightarrow> error + string" where
  \<comment> \<open>lines 102 to 105 of \<open>process_query\<close>: \<open>full_response += chunk\<close> for every chunk that is
      true; a chunk that is not a text makes \<open>+=\<close> raise \<open>TypeError\<close>\<close>
  "collect_chunks full_response [] = Inr full_response"
| "collect_chunks full_response (chunk # rest) =
     (if truthy chunk then
        (case chunk of
           JString s \<Rightarrow> collect_chunks (full_response @ s) rest
         | _ \<Rightarrow> Inl TypeError)
      else collect_chunks full_response rest)"

definition process_query ::
  "ollama_client \<Rightarrow> host \<Rightarrow> (string \<Rightarrow> string \<Rightarrow> proc_outcome) \<Rightarrow> agent \<Rightarrow> string
     \<Rightarrow> turn_result" where
  \<comment> \<open>\<open>Llama3Agent.process_query\<close>: what the call returns or raises, the agent after it
      and the processes it spawned\<close>
  "process_query client os run self query =
     (let dynamic_system_message =
            system_message self @ ''\<newline>\<newline>Current Working Directory: '' @
            current_working_directory self;
          self1 = append_turn ''user'' query self;
          messages_for_ollama =
            \<lparr>role = ''system'', content = dynamic_system_message\<rparr> # conversation_history self1
      in case generate_text client model_name messages_for_ollama True of
           PyNone \<Rightarrow> \<lparr>returned = Inr apology, agent_after = self1, spawned = []\<rparr>
         | Generator (Inl e) \<Rightarrow> \<lparr>returned = Inl e, agent_after = self1, spawned = []\<rparr>
         | Generator (Inr chunks) \<Rightarrow>
             (case collect_chunks [] chunks of
                Inl e \<Rightarrow> \<lparr>returned = Inl e, agent_after = self1, spawned = []\<rparr>
              | Inr full_response \<Rightarrow> handle_response os run self1 full_response))"

definition dispatch_request ::
  "ollama_client \<Rightarrow> host \<Rightarrow> (string \<Rightarrow> string \<Rightarrow> proc_outcome) \<Rightarrow> agent \<Rightarrow> string
     \<Rightarrow> turn_result" where
  \<comment> \<open>\<open>Dispatcher.dispatch_request\<close>\<close>
  "dispatch_request client os run llama3_agent user_query =
     process_query client os run llama3_agent user_query"

section \<open>Sample collaborators\<close>

text \<open>Concrete collaborators at which the theorems below are evaluated.\<close>

definition unreachable_client :: ollama_client where
  \<comment> \<open>a backend nobody listens on: every request fails to connect\<close>
  "unreachable_client =
     \<lparr>stream_post = (\<lambda>url_path messages. ConnectError), json_loads = (\<lambda>line. None)\<rparr>"

definition sample_host :: host where
  \<comment> \<open>a file system with the directories \<open>/\<close>, \<open>/home\<close> and \<open>/home/user\<close> and nothing else\<close>
  "sample_host =
     \<lparr>getcwd = ''/'',
      path_exists = (\<lambda>p. p \<in> set [''/'', ''/home'', ''/home/user'']),
      path_isdir = (\<lambda>p. p \<in> set [''/'', ''/home'', ''/home/user''])\<rparr>"

definition quiet_run :: "string \<Rightarrow> string \<Rightarrow> proc_outcome" where
  \<comment> \<open>every process succeeds and prints nothing\<close>
  "quiet_run command cwd = Completed 0 [] []"

definition listing_run :: "string \<Rightarrow> string \<Rightarrow> proc_outcome" where
  \<comment> \<open>every process succeeds and prints two lines\<close>
  "listing_run command cwd = Completed 0 ''a.txt\<newline>b.txt\<newline>'' []"

definition newline_run :: "string \<Rightarrow> string \<Rightarrow> proc_outcome" where
  \<comment> \<open>every process succeeds and prints one empty line, as \<open>echo\<close> without arguments does\<close>
  "newline_run command cwd = Completed 0 ''\<newline>'' []"

definition ps_missing_run :: "string \<Rightarrow> string \<Rightarrow> proc_outcome" where
  \<comment> \<open>a host without the \<open>ps\<close> binary: the shell that \<open>shell=True\<close> starts exits with
      code 127 and says so on standard error\<close>
  "ps_missing_run command cwd = Completed 127 [] ''/bin/sh: 1: ps: not found\<newline>''"

definition overloaded_client :: ollama_client where
  \<comment> \<open>a backend that answers every request with status 503\<close>
  "overloaded_client =
     \<lparr>stream_post = (\<lambda>url_path messages. HTTPStatusError 503 ''Service Unavailable''),
      json_loads = (\<lambda>line. None)\<rparr>"

section \<open>Facts about the string primitives\<close>

lemma dropWhile_idem: "dropWhile P (dropWhile P xs) = dropWhile P xs"
  by (induction xs) auto

lemma strip_all_space:
  assumes "\<forall>c\<in>set s. isspace c"
  shows "strip s = []"
  using assms by (auto simp: strip_def lstrip_def rstrip_def dest: set_dropWhileD)

lemma contains_prefix: "contains (sub @ ys) sub"
proof (cases "sub @ ys")
  case Nil
  then show ?thesis by simp
next
  case (Cons a list)
  have "take (length sub) (sub @ ys) = sub" by simp
  with Cons show ?thesis by (simp add: startswith_def)
qed

lemma contains_append: "contains (xs @ sub @ ys) sub"
proof (induction xs)
  case Nil
  show ?case using contains_prefix by simp
next
  case (Cons x xs)
  then show ?case by simp
qed

section \<open>The command gate\<close>

text \<open>
  C1, as stated, fails. The command text \<open>sudo /../etc\<close> has the base token \<open>sudo\<close>, which
  the whitelist does not hold. The gate denies it and spawns nothing, but the parent-traversal
  test comes first, so the reason is the traversal alert, which does not name \<open>sudo\<close>.
\<close>

theorem gate_unlisted_reason_counterexample:
  "split_maxsplit1 (strip ''sudo /../etc'') = [''sudo'', ''/../etc'']
   \<and> whitelisted_commands (init_agent ''/home/user'') ''sudo'' = None
   \<and> execute_shell_command quiet_run (init_agent ''/home/user'') ''sudo /../etc''
       = (security_alert, [])
   \<and> \<not> contains security_alert ''sudo''"
  by code_simp

text \<open>
  C1, amended. For every command text whose base token is absent from the whitelist or
  disabled in it, the gate returns a denial and spawns no process. The reason is the
  traversal alert when the text has a \<open>..\<close> segment and the base token is none of \<open>cd\<close>,
  \<open>ls\<close>, \<open>cat\<close>, \<open>find\<close>, \<open>grep\<close>; in every other case it is the whitelist message, which
  names the base token.
\<close>

theorem gate_denies_unlisted:
  assumes "split_maxsplit1 (strip command_string) = base_command # rest"
    and "whitelisted_commands self base_command \<noteq> Some True"
  shows "execute_shell_command run self command_string =
           (if ''..'' \<in> set (split_sep CHR ''/'' command_string)
               \<and> base_command \<notin> set [''cd'', ''ls'', ''cat'', ''find'', ''grep'']
            then security_alert
            else not_whitelisted base_command, [])
         \<and> contains (not_whitelisted base_command) base_command"
proof -
  have "contains (not_whitelisted base_command) base_command"
    unfolding not_whitelisted_def
    using contains_append [of "''Error: Command '' @ [CHR 0x27]" base_command] by simp
  moreover from assms(2)
  have "(case whitelisted_commands self base_command of
           None \<Rightarrow> True
         | Some enabled \<Rightarrow> \<not> enabled)"
    by (cases "whitelisted_commands self base_command") auto
  ultimately show ?thesis using assms(1)
    by (simp add: execute_shell_command_def)
qed

text \<open>
  C1, the amended statement at the command text \<open>sudo ls\<close>: denied with the whitelist message
  naming \<open>sudo\<close>, nothing spawned.
\<close>

theorem gate_denies_unlisted_witness:
  "split_maxsplit1 (strip ''sudo ls'') = ''sudo'' # [''ls'']
   \<and> whitelisted_commands (init_agent ''/home/user'') ''sudo'' \<noteq> Some True
   \<and> execute_shell_command listing_run (init_agent ''/home/user'') ''sudo ls''
       = (''Error: Command 'sudo' is not explicitly whitelisted for execution.'', [])"
proof -
  have h1: "split_maxsplit1 (strip ''sudo ls'') = ''sudo'' # [''ls'']" by code_simp
  have h2: "whitelisted_commands (init_agent ''/home/user'') ''sudo'' \<noteq> Some True"
    by (simp add: init_agent_def initial_whitelist_def)
  have s: "\<not> (''..'' \<in> set (split_sep CHR ''/'' ''sudo ls''))" by simp
  show ?thesis
    using gate_denies_unlisted [OF h1 h2, of listing_run] h1 h2 s
    by (simp add: not_whitelisted_def)
qed

text \<open>
  C2, as stated, fails. The command text \<open>cd\<close>, a tab, \<open>/../etc\<close> has a \<open>..\<close> segment and
  the base token \<open>cd\<close>, which is none of \<open>ls\<close>, \<open>cat\<close>, \<open>find\<close>, \<open>grep\<close>. The gate exempts
  \<open>cd\<close> from the traversal test too, so the denial comes from the whitelist and its reason
  is not the traversal alert.
\<close>

theorem gate_traversal_counterexample:
  "''..'' \<in> set (split_sep CHR ''/'' (''cd'' @ [CHR 0x09] @ ''/../etc''))
   \<and> split_maxsplit1 (strip (''cd'' @ [CHR 0x09] @ ''/../etc'')) = [''cd'', ''/../etc'']
   \<and> ''cd'' \<notin> set [''ls'', ''cat'', ''find'', ''grep'']
   \<and> execute_shell_command quiet_run (init_agent ''/home/user'') (''cd'' @ [CHR 0x09] @ ''/../etc'')
       = (''Error: Command 'cd' is not explicitly whitelisted for execution.'', [])
   \<and> execute_shell_command quiet_run (init_agent ''/home/user'') (''cd'' @ [CHR 0x09] @ ''/../etc'')
       \<noteq> (security_alert, [])"
  by code_simp

text \<open>
  C2, amended. For every command text that has a segment \<open>..\<close> when split on \<open>/\<close> and whose
  base token is none of the five words \<open>cd\<close>, \<open>ls\<close>, \<open>cat\<close>, \<open>find\<close>, \<open>grep\<close>, the gate
  returns the traversal alert and spawns no process, whatever the whitelist holds.
\<close>

theorem gate_blocks_traversal:
  assumes "''..'' \<in> set (split_sep CHR ''/'' command_string)"
    and "split_maxsplit1 (strip command_string) = base_command # rest"
    and "base_command \<notin> set [''cd'', ''ls'', ''cat'', ''find'', ''grep'']"
  shows "execute_shell_command run self command_string = (security_alert, [])"
  using assms by (simp add: execute_shell_command_def)

text \<open>
  C2, the amended statement at the command text \<open>rm -rf ../../\<close>, with \<open>rm\<close> whitelisted:
  the traversal alert, nothing spawned.
\<close>

theorem gate_blocks_traversal_witness:
  "''..'' \<in> set (split_sep CHR ''/'' ''rm -rf ../../'')
   \<and> split_maxsplit1 (strip ''rm -rf ../../'') = ''rm'' # [''-rf ../../'']
   \<and> ''rm'' \<notin> set [''cd'', ''ls'', ''cat'', ''find'', ''grep'']
   \<and> whitelisted_commands (init_agent ''/home/user'') ''rm'' = Some True
   \<and> execute_shell_command listing_run (init_agent ''/home/user'') ''rm -rf ../../''
       = (''Security Alert: Command contains '..' and is not a permitted navigation/read command. Execution blocked.'', [])"
proof -
  have h1: "''..'' \<in> set (split_sep CHR ''/'' ''rm -rf ../../'')" by simp
  have h2: "split_maxsplit1 (strip ''rm -rf ../../'') = ''rm'' # [''-rf ../../'']" by code_simp
  have h3: "''rm'' \<notin> set [''cd'', ''ls'', ''cat'', ''find'', ''grep'']" by simp
  have h4: "whitelisted_commands (init_agent ''/home/user'') ''rm'' = Some True"
    by (simp add: init_agent_def initial_whitelist_def)
  show ?thesis
    using gate_blocks_traversal [OF h1 h2 h3, of listing_run "init_agent ''/home/user''"] h1 h2 h3 h4
    by (simp add: security_alert_def)
qed

section \<open>The response classifier\<close>

text \<open>
  C5. For every raw model output that, once trimmed, begins with the marker \<open>[COMMAND]\<close> and
  a colon, the classifier returns \<open>Command\<close> with the trimmed remainder, newlines inside it
  kept; being \<open>Command\<close>, the result is never the code-block case.
\<close>

theorem classify_command_marker:
  assumes "startswith (strip raw) ''[COMMAND]:''"
  shows "classify raw = Command (strip (drop 10 (strip raw)))"
  using assms
  by (simp add: classify_def re_match_command_def strip_def [of "dropWhile isspace _"]
      lstrip_def dropWhile_idem)
   (simp add: strip_def lstrip_def)

text \<open>
  C5 at a raw output with blanks around the marker and a newline in the command text.
\<close>

theorem classify_command_marker_witness:
  "startswith (strip ''  [COMMAND]: ls -l\<newline>/tmp \<newline>'') ''[COMMAND]:''
   \<and> classify ''  [COMMAND]: ls -l\<newline>/tmp \<newline>'' = Command ''ls -l\<newline>/tmp''"
proof -
  have h: "startswith (strip ''  [COMMAND]: ls -l\<newline>/tmp \<newline>'') ''[COMMAND]:''"
    by code_simp
  have e: "strip (drop 10 (strip ''  [COMMAND]: ls -l\<newline>/tmp \<newline>'')) = ''ls -l\<newline>/tmp''"
    by code_simp
  show ?thesis using classify_command_marker [OF h] h e by simp
qed

text \<open>
  C7. For every raw model output that is empty or holds whitespace only, the classifier
  returns \<open>Text\<close> with the empty body; the classifier is a total function, so no input makes
  it fail.
\<close>

theorem classify_blank:
  assumes "\<forall>c\<in>set raw. isspace c"
  shows "classify raw = Text []"
  using strip_all_space [OF assms]
  by (simp add: classify_def re_match_command_def startswith_def)

text \<open>C7 at the raw output made of a space, a tab, a newline and a space.\<close>

theorem classify_blank_witness:
  "classify ('' '' @ [CHR 0x09] @ ''\<newline> '') = Text []"
proof -
  have h: "\<forall>c\<in>set ('' '' @ [CHR 0x09] @ ''\<newline> ''). isspace c" by (simp add: isspace_def)
  show ?thesis by (rule classify_blank [OF h])
qed

section \<open>A turn and the conversation history\<close>

text \<open>
  A call of \<open>generate_text\<close> never gives \<open>None\<close>, so the test \<open>response_generator is None\<close>
  of \<open>process_query\<close> never holds and the branch that returns the apology after the user
  turn alone is never taken.
\<close>

lemma generate_text_is_generator: "generate_text client model messages stream \<noteq> PyNone"
  by (simp add: generate_text_def)

lemma classify_empty: "classify [] = Text []"
  by (simp add: classify_def re_match_command_def startswith_def strip_def lstrip_def rstrip_def)

lemma change_directory_history:
  "conversation_history (fst (change_directory os self new_path)) = conversation_history self"
  by (simp add: change_directory_def Let_def)

lemma handle_response_history:
  "\<exists>msg. returned (handle_response os run self full_response) = Inr msg
     \<and> conversation_history (agent_after (handle_response os run self full_response))
         = conversation_history self @ [\<lparr>role = ''assistant'', content = msg\<rparr>]"
proof (cases "classify full_response")
  case (Command command_string)
  show ?thesis
  proof (cases "startswith command_string ''cd ''")
    case True
    obtain self' response_msg
      where cd: "change_directory os self (strip (drop 3 command_string)) = (self', response_msg)"
      by (cases "change_directory os self (strip (drop 3 command_string))")
    with change_directory_history [of os self "strip (drop 3 command_string)"]
    have "conversation_history self' = conversation_history self" by simp
    with Command True cd show ?thesis
      by (simp add: handle_response_def append_turn_def)
  next
    case False
    obtain execution_result calls
      where "execute_shell_command run self command_string = (execution_result, calls)"
      by (cases "execute_shell_command run self command_string")
    with Command False show ?thesis
      by (simp add: handle_response_def append_turn_def)
  qed
next
  case (Code final_response)
  then show ?thesis by (simp add: handle_response_def append_turn_def)
next
  case (Text final_response)
  then show ?thesis by (simp add: handle_response_def append_turn_def)
qed

lemma process_query_history:
  "(\<exists>e. returned (process_query client os run self query) = Inl e
      \<and> conversation_history (agent_after (process_query client os run self query))
          = conversation_history self @ [\<lparr>role = ''user'', content = query\<rparr>])
   \<or> (\<exists>msg. returned (process_query client os run self query) = Inr msg
      \<and> conversation_history (agent_after (process_query client os run self query))
          = conversation_history self
            @ [\<lparr>role = ''user'', content = query\<rparr>, \<lparr>role = ''assistant'', content = msg\<rparr>])"
proof -
  define messages where "messages =
       \<lparr>role = ''system'',
          content = system_message self @ ''\<newline>\<newline>Current Working Directory: '' @
                    current_working_directory self\<rparr>
        # conversation_history (append_turn ''user'' query self)"
  obtain drained where g: "generate_text client model_name messages True = Generator drained"
    by (simp add: generate_text_def)
  have pq: "process_query client os run self query =
      (case drained of
         Inl e \<Rightarrow> \<lparr>returned = Inl e, agent_after = append_turn ''user'' query self, spawned = []\<rparr>
       | Inr chunks \<Rightarrow>
           (case collect_chunks [] chunks of
              Inl e \<Rightarrow> \<lparr>returned = Inl e, agent_after = append_turn ''user'' query self,
                         spawned = []\<rparr>
            | Inr full_response \<Rightarrow>
                handle_response os run (append_turn ''user'' query self) full_response))"
    using g by (simp add: process_query_def Let_def messages_def split: sum.split)
  show ?thesis
  proof (cases drained)
    case (Inl e)
    with pq show ?thesis by (simp add: append_turn_def)
  next
    case (Inr chunks)
    show ?thesis
    proof (cases "collect_chunks [] chunks")
      case (Inl e)
      with pq \<open>drained = Inr chunks\<close> show ?thesis by (simp add: append_turn_def)
    next
      case (Inr full_response)
      from handle_response_history [of os run "append_turn ''user'' query self" full_response]
      show ?thesis using pq \<open>drained = Inr chunks\<close> Inr
        by (simp add: append_turn_def)
    qed
  qed
qed

lemma process_query_unreachable:
  "process_query unreachable_client os run self query =
     \<lparr>returned = Inr [],
      agent_after = append_turn ''assistant'' [] (append_turn ''user'' query self),
      spawned = []\<rparr>"
  by (simp add: process_query_def generate_text_def unreachable_client_def
      handle_response_def classify_empty Let_def)

text \<open>
  A turn can also end in an exception, and then only the user turn has been appended. A
  backend that answers with an error status is such a case.
\<close>

lemma process_query_overloaded:
  "process_query overloaded_client os run self query =
     \<lparr>returned = Inl ResponseNotRead,
      agent_after = append_turn ''user'' query self,
      spawned = []\<rparr>"
  by (simp add: process_query_def generate_text_def overloaded_client_def Let_def)

text \<open>
  C3 says that a turn whose gateway call fails adds the user turn only. The code does not do
  that. With a backend that cannot be reached, \<open>process_query\<close> appends the user turn and
  then an assistant turn with empty content: the history grows by 2, as on every turn that
  returns (\<open>process_query_history\<close> above).
\<close>

theorem failed_gateway_appends_two_turns:
  "conversation_history (agent_after (process_query unreachable_client os run self query))
     = conversation_history self
       @ [\<lparr>role = ''user'', content = query\<rparr>, \<lparr>role = ''assistant'', content = []\<rparr>]
   \<and> length (conversation_history (agent_after (process_query unreachable_client os run self query)))
     = length (conversation_history self) + 2"
  by (simp add: process_query_unreachable append_turn_def)

text \<open>C3 at the first turn of a new agent: two turns in the history afterwards.\<close>

theorem failed_gateway_appends_two_turns_witness:
  "length (conversation_history (agent_after
     (process_query unreachable_client sample_host quiet_run (init_agent ''/home/user'') ''hello'')))
   = 2"
  using failed_gateway_appends_two_turns
    [of sample_host quiet_run "init_agent ''/home/user''" "''hello''"]
  by (simp add: init_agent_def)

text \<open>
  C4 says that an unreachable backend makes the gateway fail with a typed error and the
  responder answer with the apology. The code does not do that. The generator that
  \<open>generate_text\<close> returns ends without a text and without an error, and the turn's output is
  the empty text, not the apology.
\<close>

theorem failed_gateway_returns_empty_text:
  "generate_text unreachable_client model_name (m # ms) True = Generator (Inr [])
   \<and> returned (process_query unreachable_client os run self query) = Inr []
   \<and> returned (process_query unreachable_client os run self query) \<noteq> Inr apology"
proof -
  have "generate_text unreachable_client model_name (m # ms) True = Generator (Inr [])"
    by (simp add: generate_text_def unreachable_client_def)
  moreover have "returned (process_query unreachable_client os run self query) = Inr []"
    by (simp add: process_query_unreachable)
  moreover have "apology \<noteq> []"
    by (simp add: apology_def)
  ultimately show ?thesis by auto
qed

text \<open>C4 at the first turn of a new agent: the empty text is returned.\<close>

theorem failed_gateway_returns_empty_text_witness:
  "returned (process_query unreachable_client sample_host quiet_run (init_agent ''/home/user'') ''hello'')
   = Inr []"
  using failed_gateway_returns_empty_text
    [of undefined "[]" sample_host quiet_run "init_agent ''/home/user''" "''hello''"]
  by simp

text \<open>
  When the backend streams lines and every chunk they give is a text, the turn is
  \<open>handle_response\<close> on the texts put together, after the user turn has been appended; and
  no turn changes the whitelist.
\<close>

lemma process_query_streamed:
  assumes "stream_post client ''/chat''
             (\<lparr>role = ''system'',
                content = system_message self @ ''\<newline>\<newline>Current Working Directory: '' @
                          current_working_directory self\<rparr>
              # conversation_history self @ [\<lparr>role = ''user'', content = query\<rparr>])
           = Lines ls fault"
    and "collect_chunks [] (iter_lines (json_loads client) ls) = Inr full_response"
  shows "process_query client os run self query =
           handle_response os run (append_turn ''user'' query self) full_response"
  using assms by (simp add: process_query_def generate_text_def append_turn_def Let_def)

lemma change_directory_whitelist:
  "whitelisted_commands (fst (change_directory os self new_path)) = whitelisted_commands self"
  by (simp add: change_directory_def Let_def)

lemma handle_response_whitelist:
  "whitelisted_commands (agent_after (handle_response os run self full_response))
     = whitelisted_commands self"
proof (cases "classify full_response")
  case (Command command_string)
  show ?thesis
  proof (cases "startswith command_string ''cd ''")
    case True
    obtain self' response_msg
      where cd: "change_directory os self (strip (drop 3 command_string)) = (self', response_msg)"
      by (cases "change_directory os self (strip (drop 3 command_string))")
    with change_directory_whitelist [of os self "strip (drop 3 command_string)"]
    have "whitelisted_commands self' = whitelisted_commands self" by simp
    with Command True cd show ?thesis
      by (simp add: handle_response_def append_turn_def)
  next
    case False
    obtain execution_result calls
      where "execute_shell_command run self command_string = (execution_result, calls)"
      by (cases "execute_shell_command run self command_string")
    with Command False show ?thesis
      by (simp add: handle_response_def append_turn_def)
  qed
next
  case (Code final_response)
  then show ?thesis by (simp add: handle_response_def append_turn_def)
next
  case (Text final_response)
  then show ?thesis by (simp add: handle_response_def append_turn_def)
qed

section \<open>Directory changes\<close>

text \<open>
  C6. For every directory-change request (a command text that starts with \<open>cd\<close> and a
  space), when the resolved absolute path does not exist or is not a directory, the working
  directory after the turn is the one before it and the turn's output is the failure
  message, which names the path that was asked for; when it exists and is a directory, the
  working directory becomes the resolved path. So the working directory changes only in
  the second case. No process is spawned either way.
\<close>

theorem cd_rejected_keeps_directory:
  assumes "classify full_response = Command command_string"
    and "startswith command_string ''cd ''"
  shows
    "(let new_path = strip (drop 3 command_string);
          resolved = abspath os (path_join (current_working_directory self) new_path);
          result = handle_response os run self full_response
      in (if path_exists os resolved \<and> path_isdir os resolved
          then current_working_directory (agent_after result) = resolved
          else current_working_directory (agent_after result) = current_working_directory self
               \<and> returned result = Inr (cd_failure new_path)
               \<and> contains (cd_failure new_path) new_path)
         \<and> spawned result = [])"
proof -
  have "contains (cd_failure (strip (drop 3 command_string))) (strip (drop 3 command_string))"
    unfolding cd_failure_def
    using contains_append [of "''Error: Cannot change directory to `''"] by simp
  with assms show ?thesis
    by (simp add: handle_response_def change_directory_def append_turn_def Let_def)
qed

text \<open>
  C6 at the request \<open>cd ../projects\<close> from \<open>/home/user\<close>, where \<open>/home/projects\<close> does not
  exist.
\<close>

theorem cd_rejected_keeps_directory_witness:
  "classify ''[COMMAND]:cd ../projects'' = Command ''cd ../projects''
   \<and> startswith ''cd ../projects'' ''cd ''
   \<and> abspath sample_host (path_join ''/home/user'' ''../projects'') = ''/home/projects''
   \<and> \<not> path_exists sample_host ''/home/projects''
   \<and> current_working_directory (agent_after
         (handle_response sample_host quiet_run (init_agent ''/home/user'') ''[COMMAND]:cd ../projects''))
       = ''/home/user''
   \<and> returned (handle_response sample_host quiet_run (init_agent ''/home/user'') ''[COMMAND]:cd ../projects'')
       = Inr ''Error: Cannot change directory to `../projects`. Path does not exist or is not a directory.''"
proof -
  have h1: "classify ''[COMMAND]:cd ../projects'' = Command ''cd ../projects''" by code_simp
  have h2: "startswith ''cd ../projects'' ''cd ''" by code_simp
  have p: "strip (drop 3 ''cd ../projects'') = ''../projects''" by code_simp
  have r: "abspath sample_host (path_join ''/home/user'' ''../projects'') = ''/home/projects''"
    by code_simp
  have e: "\<not> path_exists sample_host ''/home/projects''" by (simp add: sample_host_def)
  have c: "current_working_directory (init_agent ''/home/user'') = ''/home/user''"
    by (simp add: init_agent_def)
  show ?thesis
    using cd_rejected_keeps_directory [OF h1 h2, of sample_host "init_agent ''/home/user''" quiet_run]
      h1 h2 p r e c
    by (simp add: Let_def cd_failure_def)
qed

text \<open>
  For an absolute path the resolution does not depend on the working directory, so two
  identical requests resolve to the same path.
\<close>

lemma abspath_absolute:
  "startswith new_path ''/'' \<Longrightarrow> abspath os (path_join cwd new_path) = normpath new_path"
  by (simp add: abspath_def path_join_def)

lemma change_directory_absolute_twice:
  assumes "startswith new_path ''/''"
  shows "current_working_directory
           (fst (change_directory os (fst (change_directory os self new_path)) new_path))
         = current_working_directory (fst (change_directory os self new_path))"
  using assms by (simp add: change_directory_def Let_def abspath_absolute)

text \<open>
  C9. When a path resolves to an existing directory, and resolves to that same directory
  again from there, changing directory twice leaves the agent, the message and the working
  directory as changing once does.
\<close>

theorem change_directory_idempotent:
  assumes "abspath os (path_join (current_working_directory self) new_path) = resolved"
    and "path_exists os resolved" and "path_isdir os resolved"
    and "abspath os (path_join resolved new_path) = resolved"
  shows "change_directory os (fst (change_directory os self new_path)) new_path
           = change_directory os self new_path
         \<and> current_working_directory
             (fst (change_directory os (fst (change_directory os self new_path)) new_path))
           = resolved
         \<and> current_working_directory (fst (change_directory os self new_path)) = resolved"
  using assms by (simp add: change_directory_def Let_def)

text \<open>C9 at the path \<open>/home/../home\<close>, asked for twice from \<open>/home/user\<close>.\<close>

theorem change_directory_idempotent_witness:
  "abspath sample_host (path_join ''/home/user'' ''/home/../home'') = ''/home''
   \<and> path_exists sample_host ''/home'' \<and> path_isdir sample_host ''/home''
   \<and> abspath sample_host (path_join ''/home'' ''/home/../home'') = ''/home''
   \<and> current_working_directory (fst (change_directory sample_host
         (fst (change_directory sample_host (init_agent ''/home/user'') ''/home/../home''))
         ''/home/../home''))
       = ''/home''
   \<and> current_working_directory
         (fst (change_directory sample_host (init_agent ''/home/user'') ''/home/../home''))
       = ''/home''"
proof -
  have h1: "abspath sample_host
              (path_join (current_working_directory (init_agent ''/home/user'')) ''/home/../home'')
            = ''/home''"
    by code_simp
  have h2: "path_exists sample_host ''/home''" by (simp add: sample_host_def)
  have h3: "path_isdir sample_host ''/home''" by (simp add: sample_host_def)
  have h4: "abspath sample_host (path_join ''/home'' ''/home/../home'') = ''/home''" by code_simp
  have r: "abspath sample_host (path_join ''/home/user'' ''/home/../home'') = ''/home''"
    by code_simp
  note t = change_directory_idempotent [OF h1 h2 h3 h4]
  from t have twice: "current_working_directory (fst (change_directory sample_host
         (fst (change_directory sample_host (init_agent ''/home/user'') ''/home/../home''))
         ''/home/../home'')) = ''/home''"
    by (rule conjunct1 [OF conjunct2])
  from t have once: "current_working_directory
         (fst (change_directory sample_host (init_agent ''/home/user'') ''/home/../home'')) = ''/home''"
    by (rule conjunct2 [OF conjunct2])
  from r h2 h3 h4 twice once show ?thesis by blast
qed

text \<open>
  C10. A command text whose first word is \<open>cd\<close> but which does not start with \<open>cd\<close> and a
  space (the bare word, or \<open>cd\<close> followed by a tab) is not handled as a directory change.
  It goes to the gate, which denies it with the whitelist message for \<open>cd\<close>, since \<open>cd\<close> is
  not in the whitelist; nothing is spawned and the working directory stays as it was.
\<close>

theorem bare_cd_is_denied:
  assumes "classify full_response = Command command_string"
    and "split_maxsplit1 (strip command_string) = ''cd'' # rest"
    and "\<not> startswith command_string ''cd ''"
    and "whitelisted_commands self ''cd'' = None"
  shows "handle_response os run self full_response =
           \<lparr>returned = Inr (not_whitelisted ''cd''),
            agent_after = append_turn ''assistant'' (not_whitelisted ''cd'') self,
            spawned = []\<rparr>
         \<and> current_working_directory (agent_after (handle_response os run self full_response))
             = current_working_directory self"
  using assms
  by (simp add: handle_response_def execute_shell_command_def append_turn_def)

text \<open>C10 at the bare word \<open>cd\<close>.\<close>

theorem bare_cd_is_denied_witness:
  "classify ''[COMMAND]:cd'' = Command ''cd''
   \<and> split_maxsplit1 (strip ''cd'') = ''cd'' # []
   \<and> \<not> startswith ''cd'' ''cd ''
   \<and> whitelisted_commands (init_agent ''/home/user'') ''cd'' = None
   \<and> returned (handle_response sample_host listing_run (init_agent ''/home/user'') ''[COMMAND]:cd'')
       = Inr ''Error: Command 'cd' is not explicitly whitelisted for execution.''
   \<and> spawned (handle_response sample_host listing_run (init_agent ''/home/user'') ''[COMMAND]:cd'') = []
   \<and> current_working_directory (agent_after
         (handle_response sample_host listing_run (init_agent ''/home/user'') ''[COMMAND]:cd''))
       = ''/home/user''"
proof -
  have h1: "classify ''[COMMAND]:cd'' = Command ''cd''" by code_simp
  have h2: "split_maxsplit1 (strip ''cd'') = ''cd'' # []" by code_simp
  have h3: "\<not> startswith ''cd'' ''cd ''" by code_simp
  have h4: "whitelisted_commands (init_agent ''/home/user'') ''cd'' = None"
    by (simp add: init_agent_def initial_whitelist_def)
  have c: "current_working_directory (init_agent ''/home/user'') = ''/home/user''"
    by (simp add: init_agent_def)
  note t = bare_cd_is_denied [OF h1 h2 h3 h4, of sample_host listing_run]
  from t have r: "returned (handle_response sample_host listing_run (init_agent ''/home/user'') ''[COMMAND]:cd'')
       = Inr ''Error: Command 'cd' is not explicitly whitelisted for execution.''"
    by (simp add: not_whitelisted_def)
  from t have s: "spawned (handle_response sample_host listing_run (init_agent ''/home/user'') ''[COMMAND]:cd'') = []"
    by simp
  from t c have d: "current_working_directory (agent_after
         (handle_response sample_host listing_run (init_agent ''/home/user'') ''[COMMAND]:cd''))
       = ''/home/user''"
    by (simp add: append_turn_def)
  from h1 h2 h3 h4 r s d show ?thesis by blast
qed

text \<open>The same with a tab after \<open>cd\<close>.\<close>

lemma cd_tab_is_denied:
  "handle_response sample_host listing_run (init_agent ''/home/user'')
     (''[COMMAND]:cd'' @ [CHR 0x09] @ ''/home'') =
   \<lparr>returned = Inr ''Error: Command 'cd' is not explicitly whitelisted for execution.'',
    agent_after = append_turn ''assistant''
      ''Error: Command 'cd' is not explicitly whitelisted for execution.'' (init_agent ''/home/user''),
    spawned = []\<rparr>"
proof -
  have h1: "classify (''[COMMAND]:cd'' @ [CHR 0x09] @ ''/home'') = Command (''cd'' @ [CHR 0x09] @ ''/home'')" by code_simp
  have h2: "split_maxsplit1 (strip (''cd'' @ [CHR 0x09] @ ''/home'')) = [''cd'', ''/home'']" by code_simp
  have h3: "\<not> startswith (''cd'' @ [CHR 0x09] @ ''/home'') ''cd ''" by code_simp
  have h4: "whitelisted_commands (init_agent ''/home/user'') ''cd'' = None"
    by (simp add: init_agent_def initial_whitelist_def)
  have s: "\<not> (''..'' \<in> set (split_sep CHR ''/'' (''cd'' @ [CHR 0x09] @ ''/home'')))" by simp
  from h1 h2 h3 h4 show ?thesis
    by (simp add: handle_response_def execute_shell_command_def not_whitelisted_def)
qed

section \<open>Reports of executed commands\<close>

text \<open>
  C8, as stated, fails. \<open>echo\<close> is whitelisted; run without arguments it prints one newline.
  Its standard output is then not empty, but the report is the fixed message for no output,
  because the code tests the output after trimming it.
\<close>

theorem allowed_command_stdout_counterexample:
  "split_maxsplit1 (strip ''echo'') = [''echo'']
   \<and> whitelisted_commands (init_agent ''/home/user'') ''echo'' = Some True
   \<and> newline_run ''echo'' ''/home/user'' = Completed 0 ''\<newline>'' []
   \<and> execute_shell_command newline_run (init_agent ''/home/user'') ''echo''
       = (''Command executed successfully with no output.'', [(''echo'', ''/home/user'')])"
  by code_simp

text \<open>
  C8, amended. For every command the gate allows, the process runs once, in the session's
  working directory. When it exits with code 0, the report is the trimmed standard output in
  a labeled code block if that is not empty, else the trimmed standard error in a labeled
  code block if that is not empty, else the fixed message for no output. When it exits with
  another code, the report holds the exit code and the trimmed standard error in a code
  block. When running it raises an exception that is neither that of a non-zero exit nor
  \<open>FileNotFoundError\<close>, the report is the generic message with the exception's text. What is
  reported when the binary is missing is not part of the statement.
\<close>

theorem allowed_command_report:
  assumes "split_maxsplit1 (strip command_string) = base_command # rest"
    and "''..'' \<notin> set (split_sep CHR ''/'' command_string)
         \<or> base_command \<in> set [''cd'', ''ls'', ''cat'', ''find'', ''grep'']"
    and "whitelisted_commands self base_command = Some True"
  shows "snd (execute_shell_command run self command_string)
           = [(command_string, current_working_directory self)]
         \<and> (\<forall>returncode stdout stderr.
               run command_string (current_working_directory self)
                 = Completed returncode stdout stderr \<longrightarrow>
               fst (execute_shell_command run self command_string) =
                 (if returncode \<noteq> 0 then
                    ''Command failed with exit code '' @ str_int returncode @
                    '':\<newline>Error Output:\<newline>```bash\<newline>'' @ strip stderr @ ''\<newline>```''
                  else if strip stdout \<noteq> [] then
                    ''Command Output:\<newline>```bash\<newline>'' @ strip stdout @ ''\<newline>```''
                  else if strip stderr \<noteq> [] then
                    ''Command Error:\<newline>```bash\<newline>'' @ strip stderr @ ''\<newline>```''
                  else ''Command executed successfully with no output.''))
         \<and> (\<forall>e. run command_string (current_working_directory self) = OtherException e \<longrightarrow>
               fst (execute_shell_command run self command_string) =
                 ''An unexpected error occurred during command execution: '' @ e)"
proof -
  from assms have "execute_shell_command run self command_string =
      (report base_command (run command_string (current_working_directory self)),
       [(command_string, current_working_directory self)])"
    by (auto simp add: execute_shell_command_def)
  then show ?thesis
    by (simp add: report_def code_block_def Let_def)
qed

text \<open>C8, the amended statement at \<open>ls -l\<close> run in \<open>/home/user\<close> with two lines of output.\<close>

theorem allowed_command_report_witness:
  "split_maxsplit1 (strip ''ls -l'') = ''ls'' # [''-l'']
   \<and> ''..'' \<notin> set (split_sep CHR ''/'' ''ls -l'')
   \<and> whitelisted_commands (init_agent ''/home/user'') ''ls'' = Some True
   \<and> listing_run ''ls -l'' ''/home/user'' = Completed 0 ''a.txt\<newline>b.txt\<newline>'' []
   \<and> execute_shell_command listing_run (init_agent ''/home/user'') ''ls -l''
       = (''Command Output:\<newline>```bash\<newline>a.txt\<newline>b.txt\<newline>```'', [(''ls -l'', ''/home/user'')])"
proof -
  have h1: "split_maxsplit1 (strip ''ls -l'') = ''ls'' # [''-l'']" by code_simp
  have h2: "''..'' \<notin> set (split_sep CHR ''/'' ''ls -l'')
         \<or> ''ls'' \<in> set [''cd'', ''ls'', ''cat'', ''find'', ''grep'']" by simp
  have h2': "''..'' \<notin> set (split_sep CHR ''/'' ''ls -l'')" by simp
  have h3: "whitelisted_commands (init_agent ''/home/user'') ''ls'' = Some True"
    by (simp add: init_agent_def initial_whitelist_def)
  have c: "current_working_directory (init_agent ''/home/user'') = ''/home/user''"
    by (simp add: init_agent_def)
  have r: "listing_run ''ls -l'' ''/home/user'' = Completed 0 ''a.txt\<newline>b.txt\<newline>'' []"
    by (simp add: listing_run_def)
  have s: "strip ''a.txt\<newline>b.txt\<newline>'' = ''a.txt\<newline>b.txt''" by code_simp
  note t = allowed_command_report [OF h1 h2 h3, of listing_run]
  from t c have calls: "snd (execute_shell_command listing_run (init_agent ''/home/user'') ''ls -l'')
      = [(''ls -l'', ''/home/user'')]"
    by simp
  from t c r s have shown: "fst (execute_shell_command listing_run (init_agent ''/home/user'') ''ls -l'')
      = ''Command Output:\<newline>```bash\<newline>a.txt\<newline>b.txt\<newline>```''"
    by simp
  from calls shown have "execute_shell_command listing_run (init_agent ''/home/user'') ''ls -l''
       = (''Command Output:\<newline>```bash\<newline>a.txt\<newline>b.txt\<newline>```'', [(''ls -l'', ''/home/user'')])"
    by (simp add: prod_eq_iff)
  with h1 h2' h3 r show ?thesis by blast
qed

text \<open>
  The handler of \<open>FileNotFoundError\<close> (lines 75 and 76) is written for a binary that is
  missing, but with \<open>shell=True\<close> the process that is started is the shell, which exists.
  On a host without \<open>ps\<close> the shell exits with code 127, and the report is the one for a
  non-zero exit code, not the one that says the command was not found.
\<close>

lemma missing_binary_is_reported_as_exit_code:
  "execute_shell_command ps_missing_run (init_agent ''/home/user'') ''ps''
     = (''Command failed with exit code 127:\<newline>Error Output:\<newline>```bash\<newline>/bin/sh: 1: ps: not found\<newline>```'',
        [(''ps'', ''/home/user'')])
   \<and> fst (execute_shell_command ps_missing_run (init_agent ''/home/user'') ''ps'')
       \<noteq> ''Error: Command 'ps' not found. Is it installed?''"
  by code_simp

end
